theory Spec2Isabelle
  imports Main
begin

section \<open>Data model (types/ontime.ts)\<close>

text \<open>
  The interfaces of \<^verbatim>\<open>types/ontime.ts\<close> as records. A field typed \<^verbatim>\<open>T | null\<close> is a
  \<open>T nullable\<close>; an optional field (\<^verbatim>\<open>f?: T\<close>) is a \<open>T option\<close>, \<open>None\<close> standing
  for \<^verbatim>\<open>undefined\<close>. Numbers of the event and timer model (seconds, milliseconds) are
  integers, in the range where the platform's arithmetic on them is exact. The fields \<^verbatim>\<open>id\<close> and \<^verbatim>\<open>note\<close> of an event are written \<open>id_ev\<close> and
  \<open>note_ev\<close>, and the \<^verbatim>\<open>duration\<close> of the timer \<open>duration_ms\<close>.
\<close>

datatype 'a nullable = Null | Value 'a

datatype EndAction = EndNone | LoadNext | PlayNext | EndStop

datatype TimerType = CountDown | CountUp | Clock | TimerNone

record OntimeEvent =
  id_ev :: string
  title :: string
  note_ev :: "string option"
  cue :: string
  isPublic :: bool
  skip :: bool
  colour :: "string option"
  timeWarning :: "int option"
  timeDanger :: "int option"
  endAction :: EndAction
  timerType :: TimerType
  duration :: "int option"
  timeStart :: "int option"
  timeEnd :: "int option"
  custom :: "(string \<rightharpoonup> string) option"

datatype PlaybackStateName = Start | Pause | Stop | Roll

record PlaybackState =
  state :: PlaybackStateName
  selectedEventId :: "string nullable"
  selectedEventIndex :: "int nullable"
  loadedEventId :: "string nullable"
  loadedEventIndex :: "int nullable"

record TimerState =
  current :: int
  duration_ms :: int
  expectedFinish :: int
  startedAt :: "int option"
  addedTime :: "int option"

text \<open>
  \<^verbatim>\<open>RuntimeData\<close> as the status derivation reads it: through \<^verbatim>\<open>runtimeData?.playback?.\<close>
  and \<^verbatim>\<open>runtimeData?.timer?.\<close>, so either slice may be missing at run time.
\<close>

record RuntimeData =
  timer :: "TimerState option"
  playback :: "PlaybackState option"

datatype EventStatus = completed | active | upcoming | skipped

record EventWithStatus = OntimeEvent +
  status :: EventStatus
  isRunning :: bool
  timeRemaining :: "int option"


section \<open>Event status derivation (hooks/useOntime.ts, useEventsWithStatus)\<close>

text \<open>\<^verbatim>\<open>Array.prototype.findIndex\<close>: the first position that satisfies the predicate, else -1.\<close>

fun findIndex :: "('a \<Rightarrow> bool) \<Rightarrow> 'a list \<Rightarrow> int" where
  "findIndex p [] = - 1"
| "findIndex p (x # xs) =
     (if p x then 0
      else (let i = findIndex p xs in if i = - 1 then - 1 else i + 1))"

text \<open>\<^verbatim>\<open>runtimeData?.playback?.selectedEventId\<close>; \<open>None\<close> is \<^verbatim>\<open>undefined\<close>.\<close>

definition currentEventId :: "RuntimeData option \<Rightarrow> string nullable option" where
  "currentEventId runtimeData =
     (case runtimeData of
        None \<Rightarrow> None
      | Some rd \<Rightarrow> (case playback rd of None \<Rightarrow> None | Some p \<Rightarrow> Some (selectedEventId p)))"

text \<open>\<^verbatim>\<open>runtimeData?.timer?.current\<close>.\<close>

definition currentTime :: "RuntimeData option \<Rightarrow> int option" where
  "currentTime runtimeData =
     (case runtimeData of
        None \<Rightarrow> None
      | Some rd \<Rightarrow> (case timer rd of None \<Rightarrow> None | Some t \<Rightarrow> Some (current t)))"

text \<open>\<^verbatim>\<open>runtimeData?.playback?.state === 'start'\<close>.\<close>

definition playbackIsStart :: "RuntimeData option \<Rightarrow> bool" where
  "playbackIsStart runtimeData =
     (case runtimeData of
        None \<Rightarrow> False
      | Some rd \<Rightarrow> (case playback rd of None \<Rightarrow> False | Some p \<Rightarrow> state p = Start))"

text \<open>
  The body of the \<^verbatim>\<open>rundown.map((event, index) => ...)\<close> callback. The three mutable
  locals start as \<^verbatim>\<open>'upcoming'\<close>, \<^verbatim>\<open>false\<close>, \<^verbatim>\<open>undefined\<close>; \<^verbatim>\<open>event.duration\<close> is
  truthy when it is defined and not zero.
\<close>

definition deriveEvent ::
  "OntimeEvent list \<Rightarrow> RuntimeData option \<Rightarrow> OntimeEvent \<Rightarrow> nat \<Rightarrow> EventWithStatus" where
  "deriveEvent rundown runtimeData event index =
     (if skip event then
        OntimeEvent.extend event (EventWithStatus.fields skipped False None)
      else if currentEventId runtimeData = Some (Value (id_ev event)) then
        OntimeEvent.extend event
          (EventWithStatus.fields active (playbackIsStart runtimeData)
             (case (currentTime runtimeData, duration event) of
                (Some t, Some d) \<Rightarrow> if d \<noteq> 0 then Some (d * 1000 - t) else None
              | _ \<Rightarrow> None))
      else
        (let currentIndex =
               findIndex (\<lambda>e. Some (Value (id_ev e)) = currentEventId runtimeData) rundown
         in if currentIndex \<noteq> - 1 \<and> int index < currentIndex
            then OntimeEvent.extend event (EventWithStatus.fields completed False None)
            else OntimeEvent.extend event (EventWithStatus.fields upcoming False None)))"

definition useEventsWithStatus ::
  "OntimeEvent list \<Rightarrow> RuntimeData option \<Rightarrow> EventWithStatus list" where
  "useEventsWithStatus rundown runtimeData =
     map (\<lambda>(index, event). deriveEvent rundown runtimeData event index)
       (enumerate 0 rundown)"


section \<open>JavaScript values decoded from the wire\<close>

text \<open>
  What \<^verbatim>\<open>JSON.parse\<close> can return. A number is an integer of magnitude below \<open>2^53\<close>:
  there the decoder is exact and \<^verbatim>\<open>String\<close> prints the decimal digits; fractions and
  larger numbers are outside the model. A string is a string of ASCII characters. An
  object is the list of its members in source order. \<^verbatim>\<open>undefined\<close> is not a JSON value:
  a property read returns a \<open>json option\<close>, \<open>None\<close> for \<^verbatim>\<open>undefined\<close>.
\<close>

datatype json =
  JNull
| JBool bool
| JNum int
| JStr string
| JArr "json list"
| JObj "(string \<times> json) list"

text \<open>JavaScript truthiness (\<^verbatim>\<open>!x\<close>, \<^verbatim>\<open>x && ...\<close>, \<^verbatim>\<open>x || ...\<close>).\<close>

fun truthy :: "json \<Rightarrow> bool" where
  "truthy JNull = False"
| "truthy (JBool b) = b"
| "truthy (JNum n) = (n \<noteq> 0)"
| "truthy (JStr s) = (s \<noteq> [])"
| "truthy (JArr xs) = True"
| "truthy (JObj kvs) = True"

text \<open>\<^verbatim>\<open>typeof x === 'object'\<close>: true of objects, arrays and \<^verbatim>\<open>null\<close>.\<close>

fun typeofObject :: "json \<Rightarrow> bool" where
  "typeofObject JNull = True"
| "typeofObject (JArr xs) = True"
| "typeofObject (JObj kvs) = True"
| "typeofObject v = False"

text \<open>
  \<^verbatim>\<open>x.k\<close> for the keys the client reads (\<^verbatim>\<open>topic\<close>, \<^verbatim>\<open>payload\<close>, \<^verbatim>\<open>type\<close>, \<^verbatim>\<open>data\<close>,
  and the slice names), none of which exists on a prototype. Of a repeated key
  \<^verbatim>\<open>JSON.parse\<close> keeps the last member.
\<close>

fun getProp :: "json \<Rightarrow> string \<Rightarrow> json option" where
  "getProp (JObj kvs) k = map_of (rev kvs) k"
| "getProp v k = None"

text \<open>The decimal digits of an integer, with its sign.\<close>

fun showNat :: "nat \<Rightarrow> string" where
  "showNat n =
     (if n < 10 then [''0123456789'' ! n]
      else showNat (n div 10) @ [''0123456789'' ! (n mod 10)])"

declare showNat.simps [simp del]

definition showInt :: "int \<Rightarrow> string" where
  "showInt i = (if i < 0 then CHR ''-'' # showNat (nat (- i)) else showNat (nat i))"

fun joinWith :: "string \<Rightarrow> string list \<Rightarrow> string" where
  "joinWith sep [] = []"
| "joinWith sep [s] = s"
| "joinWith sep (s # t # ss) = s @ sep @ joinWith sep (t # ss)"

text \<open>
  \<^verbatim>\<open>String(x)\<close>, \<open>None\<close> where it throws a TypeError. An array prints its elements joined
  by commas, \<^verbatim>\<open>null\<close> elements as the empty string, and throws where an element does.
  An object prints as \<^verbatim>\<open>[object Object]\<close> through the inherited \<^verbatim>\<open>toString\<close>; an object
  with a member \<^verbatim>\<open>toString\<close> of its own has no callable \<^verbatim>\<open>toString\<close> (a decoded value is
  never a function) and no primitive \<^verbatim>\<open>valueOf\<close>, and the conversion throws.
\<close>

fun js_String :: "json \<Rightarrow> string option" where
  "js_String JNull = Some ''null''"
| "js_String (JBool b) = Some (if b then ''true'' else ''false'')"
| "js_String (JNum n) = Some (showInt n)"
| "js_String (JStr s) = Some s"
| "js_String (JArr xs) =
     map_option (joinWith '','')
       (those (map (\<lambda>x. if x = JNull then Some [] else js_String x) xs))"
| "js_String (JObj kvs) =
     (if getProp (JObj kvs) ''toString'' = None then Some ''[object Object]'' else None)"

text \<open>\<^verbatim>\<open>String.prototype.toLowerCase\<close> on an ASCII string: the letters A to Z are lowered.\<close>

definition lowerChar :: "char \<Rightarrow> char" where
  "lowerChar c =
     (case map_of (zip ''ABCDEFGHIJKLMNOPQRSTUVWXYZ'' ''abcdefghijklmnopqrstuvwxyz'') c of
        None \<Rightarrow> c
      | Some l \<Rightarrow> l)"

definition toLowerCase :: "string \<Rightarrow> string" where
  "toLowerCase s = map lowerChar s"


section \<open>Message normalisation and dispatch (lib/ontime-api.ts)\<close>

text \<open>
  The message handed to \<^verbatim>\<open>handleWebSocketMessage\<close> is a decoded object (the cast
  \<^verbatim>\<open>parsedMessage as WebSocketMessage\<close> checks nothing) or an object literal with the two
  members \<^verbatim>\<open>topic\<close> and \<^verbatim>\<open>payload\<close>. \<^verbatim>\<open>message.topic\<close> and \<^verbatim>\<open>message.payload\<close>:
\<close>

definition topic :: "json \<Rightarrow> json option" where
  "topic message = getProp message ''topic''"

definition payload :: "json \<Rightarrow> json option" where
  "payload message = getProp message ''payload''"

text \<open>
  Subscribers are the members of the set \<^verbatim>\<open>wsListeners\<close>, iterated in insertion order.
  A dispatch returns the callback invocations it made, in order. \<open>throws l p\<close> tells
  whether callback \<open>l\<close> throws on \<open>p\<close>: a \<^verbatim>\<open>forEach\<close> whose callback body is wrapped
  in \<^verbatim>\<open>try/catch\<close> goes on to the next subscriber, one that is not stops there.
\<close>

type_synonym 'l calls = "('l \<times> json) list"

definition forEachCaught :: "'l list \<Rightarrow> json \<Rightarrow> 'l calls" where
  "forEachCaught listeners p = map (\<lambda>l. (l, p)) listeners"

fun forEachUncaught :: "('l \<Rightarrow> json \<Rightarrow> bool) \<Rightarrow> 'l list \<Rightarrow> json \<Rightarrow> 'l calls" where
  "forEachUncaught throws [] p = []"
| "forEachUncaught throws (l # ls) p =
     (l, p) # (if throws l p then [] else forEachUncaught throws ls p)"

text \<open>Callbacks that never throw.\<close>

definition noThrow :: "'l \<Rightarrow> json \<Rightarrow> bool" where
  "noThrow l p = False"

definition validTopics :: "string list" where
  "validTopics =
     [''ontime-clock'', ''clock'', ''runtime'', ''timer'', ''playback'', ''poll'',
      ''get-runtime'', ''get-timer'', ''get-playback'', ''ontime'', ''ontime-poll'',
      ''unknown-data'', ''error'']"

text \<open>
  \<^verbatim>\<open>if (typeof topic !== 'string') topic = String(topic || '')\<close>, for a topic that is
  neither \<^verbatim>\<open>null\<close> nor \<^verbatim>\<open>undefined\<close>; \<open>None\<close> where \<^verbatim>\<open>String\<close> throws.
\<close>

definition coerceTopic :: "json \<Rightarrow> string option" where
  "coerceTopic t =
     (case t of
        JStr s \<Rightarrow> Some s
      | _ \<Rightarrow> js_String (if truthy t then t else JStr []))"

text \<open>\<^verbatim>\<open>topic && typeof topic === 'string' ? topic.toLowerCase() : 'unknown'\<close>.\<close>

definition normalizeTopic :: "string \<Rightarrow> string" where
  "normalizeTopic t = (if t \<noteq> [] then toLowerCase t else ''unknown'')"

text \<open>
  The outer \<^verbatim>\<open>catch\<close> block of \<^verbatim>\<open>handleWebSocketMessage\<close>: the last-resort broadcast of
  \<^verbatim>\<open>message.payload || message\<close>, each callback in its own \<^verbatim>\<open>try/catch\<close>.
\<close>

definition lastResort :: "'l list \<Rightarrow> json \<Rightarrow> 'l calls" where
  "lastResort listeners message =
     (if truthy message \<and> typeofObject message then
        (let fallbackPayload =
               (case payload message of
                  None \<Rightarrow> message
                | Some p \<Rightarrow> if truthy p then p else message)
         in if truthy fallbackPayload \<and> typeofObject fallbackPayload
            then forEachCaught listeners fallbackPayload
            else [])
      else [])"

text \<open>
  \<^verbatim>\<open>handleWebSocketMessage\<close>. Every callback error is caught where the callbacks are
  called; of the other statements of the \<^verbatim>\<open>try\<close> block only \<^verbatim>\<open>String(topic || '')\<close> can
  throw on a decoded message, and it leads to the outer \<^verbatim>\<open>catch\<close> block.
\<close>

definition handleWebSocketMessage ::
  "('l \<Rightarrow> json \<Rightarrow> bool) \<Rightarrow> 'l list \<Rightarrow> json \<Rightarrow> 'l calls" where
  "handleWebSocketMessage throws listeners message =
     (if \<not> truthy message then []
      else if topic message = None \<or> topic message = Some JNull then
        (case payload message of
           None \<Rightarrow> []
         | Some p \<Rightarrow>
             if truthy p \<and> typeofObject p then forEachUncaught throws listeners p else [])
      else
        (case coerceTopic (the (topic message)) of
           None \<Rightarrow> lastResort listeners message
         | Some topicString \<Rightarrow>
             (let normalizedTopic = normalizeTopic topicString
              in if normalizedTopic \<in> set validTopics then
                   (case payload message of
                      None \<Rightarrow> []
                    | Some p \<Rightarrow> if truthy p then forEachCaught listeners p else [])
                 else
                   (case payload message of
                      None \<Rightarrow> []
                    | Some p \<Rightarrow>
                        if truthy p \<and> typeofObject p then forEachCaught listeners p
                        else []))))"

text \<open>
  The \<^verbatim>\<open>onmessage\<close> handler up to its call of \<^verbatim>\<open>handleWebSocketMessage\<close>: the message
  it hands over for a text frame, \<open>None\<close> where it returns without a call. A frame with
  a \<^verbatim>\<open>topic\<close> member is handed over as it was decoded; the other two messages are
  object literals. \<open>JSON_parse\<close> is the platform's decoder, \<open>None\<close> where it throws.
\<close>

definition envelope :: "(string \<Rightarrow> json option) \<Rightarrow> string \<Rightarrow> json option" where
  "envelope JSON_parse data =
     (if data = [] then None
      else
        (case JSON_parse data of
           None \<Rightarrow> None
         | Some parsedMessage \<Rightarrow>
             if \<not> truthy parsedMessage \<or> \<not> typeofObject parsedMessage then None
             else if getProp parsedMessage ''topic'' \<noteq> None then Some parsedMessage
             else if getProp parsedMessage ''type'' \<noteq> None then
               Some (JObj [(''topic'', the (getProp parsedMessage ''type'')),
                           (''payload'',
                            (case getProp parsedMessage ''data'' of
                               None \<Rightarrow> parsedMessage
                             | Some d \<Rightarrow> if truthy d then d else parsedMessage))])
             else
               Some (JObj [(''topic'', JStr ''unknown-data''), (''payload'', parsedMessage)])))"

definition onmessage ::
  "(string \<Rightarrow> json option) \<Rightarrow> ('l \<Rightarrow> json \<Rightarrow> bool) \<Rightarrow> 'l list \<Rightarrow> string \<Rightarrow> 'l calls" where
  "onmessage JSON_parse throws listeners data =
     (case envelope JSON_parse data of
        None \<Rightarrow> []
      | Some message \<Rightarrow> handleWebSocketMessage throws listeners message)"


section \<open>The runtime snapshot held by useWebSocketConnection (hooks/useOntime.ts)\<close>

text \<open>
  \<^verbatim>\<open>useState<RuntimeData | null>(null)\<close> and the query cache entry \<^verbatim>\<open>['runtime']\<close>. A
  payload reaches them unchecked (\<^verbatim>\<open>payload as RuntimeData\<close>), so both hold a decoded
  value.
\<close>

record SnapshotStore =
  runtimeData :: "json option"
  runtimeQueryData :: "json option"

text \<open>The callback given to \<^verbatim>\<open>onRuntimeDataUpdate\<close>.\<close>

definition onRuntimeData :: "json \<Rightarrow> SnapshotStore \<Rightarrow> SnapshotStore" where
  "onRuntimeData data st = st\<lparr>runtimeData := Some data, runtimeQueryData := Some data\<rparr>"

text \<open>
  One message through the client to a store whose callback is the only subscriber; the
  callback does not throw.
\<close>

definition storeMerge :: "json \<Rightarrow> SnapshotStore \<Rightarrow> SnapshotStore" where
  "storeMerge message st =
     fold (\<lambda>(l, p). onRuntimeData p)
       (handleWebSocketMessage noThrow [()] message) st"

text \<open>A top-level slice of the snapshot (\<^verbatim>\<open>runtimeData?.timer\<close>, \<^verbatim>\<open>runtimeData?.playback\<close>, ...).\<close>

definition slice :: "SnapshotStore \<Rightarrow> string \<Rightarrow> json option" where
  "slice st k = (case runtimeData st of None \<Rightarrow> None | Some s \<Rightarrow> getProp s k)"


section \<open>Custom-field edits (components/EventCard.tsx, OntimeAPI.updateCustomField)\<close>

datatype RequestError = RequestError string

text \<open>
  \<^verbatim>\<open>updateCustomField\<close>: one PATCH to \<^verbatim>\<open>/events/:eventId/custom/:fieldName\<close> with body
  \<^verbatim>\<open>{ value }\<close>. \<open>patch\<close> is the HTTP client: \<open>Inr\<close> the \<^verbatim>\<open>response.data\<close> of a fulfilled
  request, \<open>Inl\<close> the error of a rejected one. The method has no \<^verbatim>\<open>catch\<close>.
\<close>

definition updateCustomField ::
  "(string \<Rightarrow> json \<Rightarrow> RequestError + json) \<Rightarrow> string \<Rightarrow> string \<Rightarrow> string \<Rightarrow> RequestError + json" where
  "updateCustomField patch eventId fieldName v =
     (case patch (''/events/'' @ eventId @ ''/custom/'' @ fieldName) (JObj [(''value'', JStr v)]) of
        Inl err \<Rightarrow> Inl err
      | Inr data \<Rightarrow> Inr data)"

text \<open>The component state of an \<^verbatim>\<open>EventCard\<close>, and what \<^verbatim>\<open>console.error\<close> received.\<close>

record EventCardState =
  editingField :: "string option"
  fieldValues :: "string \<rightharpoonup> string"
  consoleErrors :: "RequestError list"

text \<open>\<^verbatim>\<open>x || ''\<close> for a string that may be \<^verbatim>\<open>undefined\<close>.\<close>

definition orEmpty :: "string option \<Rightarrow> string" where
  "orEmpty x = (case x of None \<Rightarrow> [] | Some s \<Rightarrow> s)"

text \<open>\<^verbatim>\<open>event.custom?.[fieldId]\<close>.\<close>

definition customValue :: "('a OntimeEvent_scheme) \<Rightarrow> string \<Rightarrow> string option" where
  "customValue event fieldId = (case custom event of None \<Rightarrow> None | Some c \<Rightarrow> c fieldId)"

text \<open>\<^verbatim>\<open>useState<Record<string, string>>(event.custom || {})\<close>, nothing being edited.\<close>

definition initialCardState :: "('a OntimeEvent_scheme) \<Rightarrow> EventCardState" where
  "initialCardState event =
     \<lparr>editingField = None,
      fieldValues = (case custom event of None \<Rightarrow> Map.empty | Some c \<Rightarrow> c),
      consoleErrors = []\<rparr>"

text \<open>
  What the card shows for a field: the input's \<^verbatim>\<open>fieldValues[field.id] || ''\<close> while the
  field is edited, else
  \<^verbatim>\<open>fieldValues[field.id] || event.custom?.[field.id] || ''\<close>.
\<close>

definition displayedValue :: "('a OntimeEvent_scheme) \<Rightarrow> EventCardState \<Rightarrow> string \<Rightarrow> string" where
  "displayedValue event st fieldId =
     (if editingField st = Some fieldId then orEmpty (fieldValues st fieldId)
      else if orEmpty (fieldValues st fieldId) \<noteq> [] then orEmpty (fieldValues st fieldId)
      else orEmpty (customValue event fieldId))"

text \<open>The edit button: \<^verbatim>\<open>setEditingField(field.id)\<close> and the current value into the input.\<close>

definition startEdit :: "('a OntimeEvent_scheme) \<Rightarrow> string \<Rightarrow> EventCardState \<Rightarrow> EventCardState" where
  "startEdit event fieldId st =
     st\<lparr>editingField := Some fieldId,
        fieldValues := (fieldValues st)(fieldId \<mapsto> displayedValue event st fieldId)\<rparr>"

text \<open>The input's \<^verbatim>\<open>onChange\<close>.\<close>

definition onChange :: "string \<Rightarrow> string \<Rightarrow> EventCardState \<Rightarrow> EventCardState" where
  "onChange fieldId v st = st\<lparr>fieldValues := (fieldValues st)(fieldId \<mapsto> v)\<rparr>"

text \<open>
  \<^verbatim>\<open>handleFieldSave\<close>, run to the settlement of the request. \<^verbatim>\<open>mutateAsync\<close> settles as
  \<^verbatim>\<open>updateCustomField\<close> does.
\<close>

definition handleFieldSave ::
  "(string \<Rightarrow> json \<Rightarrow> RequestError + json) \<Rightarrow> ('a OntimeEvent_scheme) \<Rightarrow> string \<Rightarrow> string \<Rightarrow>
   EventCardState \<Rightarrow> EventCardState" where
  "handleFieldSave patch event fieldId v st =
     (case updateCustomField patch (id_ev event) fieldId v of
        Inr data \<Rightarrow> st\<lparr>editingField := None\<rparr>
      | Inl err \<Rightarrow>
          st\<lparr>fieldValues := (fieldValues st)(fieldId \<mapsto> orEmpty (customValue event fieldId)),
             consoleErrors := consoleErrors st @ [err]\<rparr>)"

text \<open>The save button and the Enter key: \<^verbatim>\<open>handleFieldSave(field.id, fieldValues[field.id] || '')\<close>.\<close>

definition saveField ::
  "(string \<Rightarrow> json \<Rightarrow> RequestError + json) \<Rightarrow> ('a OntimeEvent_scheme) \<Rightarrow> string \<Rightarrow>
   EventCardState \<Rightarrow> EventCardState" where
  "saveField patch event fieldId st =
     handleFieldSave patch event fieldId (orEmpty (fieldValues st fieldId)) st"


section \<open>Connection lifecycle (lib/ontime-api.ts)\<close>

text \<open>
  The client's fields, and the platform objects they refer to. A \<^verbatim>\<open>WebSocket\<close> object is
  its position in \<open>sockets\<close>, which holds the \<^verbatim>\<open>readyState\<close> of every socket constructed
  so far; an interval is its position in \<open>timers\<close>, with what it runs and whether it is
  still armed. An interval handle is truthy, so \<^verbatim>\<open>if (this.reconnectInterval)\<close> asks
  whether the field is not \<^verbatim>\<open>null\<close>. \<open>sent\<close> lists the frames given to \<^verbatim>\<open>send\<close>.
\<close>

datatype ReadyState = CONNECTING | OPEN | CLOSING | CLOSED

datatype TimerKind = ReconnectTimer | ProbeTimer

record 'l OntimeAPI =
  websocket :: "nat option"
  wsListeners :: "'l list"
  reconnectInterval :: "nat option"
  sockets :: "ReadyState list"
  timers :: "(TimerKind \<times> bool) list"
  sent :: "(nat \<times> string \<times> json) list"

definition initialAPI :: "'l OntimeAPI" where
  "initialAPI =
     \<lparr>websocket = None, wsListeners = [], reconnectInterval = None,
      sockets = [], timers = [], sent = []\<rparr>"

definition sendWebSocketMessage :: "string \<Rightarrow> json \<Rightarrow> 'l OntimeAPI \<Rightarrow> 'l OntimeAPI" where
  "sendWebSocketMessage t p api =
     (case websocket api of
        None \<Rightarrow> api
      | Some ws \<Rightarrow>
          if ws < length (sockets api) \<and> sockets api ! ws = OPEN
          then api\<lparr>sent := sent api @ [(ws, t, p)]\<rparr>
          else api)"

text \<open>
  \<^verbatim>\<open>connectWebSocket\<close>, up to the return of the promise: a new socket is constructed
  and stored in the field, whatever the field held. Its handlers are the three
  definitions below.
\<close>

definition connectWebSocket :: "'l OntimeAPI \<Rightarrow> 'l OntimeAPI" where
  "connectWebSocket api =
     api\<lparr>sockets := sockets api @ [CONNECTING], websocket := Some (length (sockets api))\<rparr>"

text \<open>\<^verbatim>\<open>setInterval\<close>: a new armed interval.\<close>

definition setInterval :: "TimerKind \<Rightarrow> 'l OntimeAPI \<Rightarrow> 'l OntimeAPI" where
  "setInterval k api = api\<lparr>timers := timers api @ [(k, True)]\<rparr>"

text \<open>\<^verbatim>\<open>clearInterval\<close>: the interval no longer fires.\<close>

definition clearInterval :: "nat \<Rightarrow> 'l OntimeAPI \<Rightarrow> 'l OntimeAPI" where
  "clearInterval h api =
     (if h < length (timers api)
      then api\<lparr>timers := (timers api)[h := (fst (timers api ! h), False)]\<rparr>
      else api)"

definition onopen :: "'l OntimeAPI \<Rightarrow> 'l OntimeAPI" where
  "onopen api =
     setInterval ProbeTimer
       (sendWebSocketMessage ''ontime-poll'' (JObj [])
         (sendWebSocketMessage ''poll-runtime'' (JObj [])
           (sendWebSocketMessage ''get-playback'' (JObj [])
             (sendWebSocketMessage ''get-timer'' (JObj [])
               (sendWebSocketMessage ''get-runtime'' (JObj []) api)))))"

definition scheduleReconnect :: "'l OntimeAPI \<Rightarrow> 'l OntimeAPI" where
  "scheduleReconnect api =
     (if reconnectInterval api \<noteq> None then api
      else (setInterval ReconnectTimer api)\<lparr>reconnectInterval := Some (length (timers api))\<rparr>)"

definition onclose :: "'l OntimeAPI \<Rightarrow> 'l OntimeAPI" where
  "onclose api = scheduleReconnect (api\<lparr>websocket := None\<rparr>)"

text \<open>\<^verbatim>\<open>WebSocket.close()\<close>: a socket that is connecting or open starts closing.\<close>

definition closeSocket :: "nat \<Rightarrow> 'l OntimeAPI \<Rightarrow> 'l OntimeAPI" where
  "closeSocket ws api =
     (if ws < length (sockets api) \<and> (sockets api ! ws = CONNECTING \<or> sockets api ! ws = OPEN)
      then api\<lparr>sockets := (sockets api)[ws := CLOSING]\<rparr>
      else api)"

definition disconnectWebSocket :: "'l OntimeAPI \<Rightarrow> 'l OntimeAPI" where
  "disconnectWebSocket api =
     (let api1 = (case reconnectInterval api of
                    None \<Rightarrow> api
                  | Some h \<Rightarrow> (clearInterval h api)\<lparr>reconnectInterval := None\<rparr>);
          api2 = (case websocket api1 of
                    None \<Rightarrow> api1
                  | Some ws \<Rightarrow> (closeSocket ws api1)\<lparr>websocket := None\<rparr>)
      in api2\<lparr>wsListeners := []\<rparr>)"

text \<open>\<^verbatim>\<open>onRuntimeDataUpdate\<close> adds to the set, and the function it returns deletes.\<close>

definition onRuntimeDataUpdate :: "'l \<Rightarrow> 'l OntimeAPI \<Rightarrow> 'l OntimeAPI" where
  "onRuntimeDataUpdate l api =
     (if l \<in> set (wsListeners api) then api else api\<lparr>wsListeners := wsListeners api @ [l]\<rparr>)"

definition unsubscribe :: "'l \<Rightarrow> 'l OntimeAPI \<Rightarrow> 'l OntimeAPI" where
  "unsubscribe l api = api\<lparr>wsListeners := removeAll l (wsListeners api)\<rparr>"

text \<open>The two interval bodies.\<close>

definition reconnectTick :: "'l OntimeAPI \<Rightarrow> 'l OntimeAPI" where
  "reconnectTick api = connectWebSocket api"

definition probeTick :: "'l OntimeAPI \<Rightarrow> 'l OntimeAPI" where
  "probeTick api =
     (case websocket api of
        None \<Rightarrow> api
      | Some ws \<Rightarrow>
          if ws < length (sockets api) \<and> sockets api ! ws = OPEN
          then sendWebSocketMessage ''ontime-poll'' (JObj [])
                 (sendWebSocketMessage ''get-runtime'' (JObj []) api)
          else api)"

text \<open>
  What can happen to the client: a call of its public methods, or the platform running
  one of its handlers. A socket opens once, while it is connecting; it reports an error
  or its closure while it is not closed yet, also after \<^verbatim>\<open>close()\<close>, whose completion
  is announced by the close event; an interval fires while it is armed. An incoming
  message changes no field of the client and is left out. \<open>step\<close> is \<open>None\<close> for an
  occurrence the platform cannot produce in that state.
\<close>

datatype 'l occurrence =
  CallConnect
| CallDisconnect
| CallSubscribe 'l
| CallUnsubscribe 'l
| SocketOpen nat
| SocketError nat
| SocketClose nat
| TimerTick nat

fun step :: "'l occurrence \<Rightarrow> 'l OntimeAPI \<Rightarrow> 'l OntimeAPI option" where
  "step CallConnect api = Some (connectWebSocket api)"
| "step CallDisconnect api = Some (disconnectWebSocket api)"
| "step (CallSubscribe l) api = Some (onRuntimeDataUpdate l api)"
| "step (CallUnsubscribe l) api = Some (unsubscribe l api)"
| "step (SocketOpen ws) api =
     (if ws < length (sockets api) \<and> sockets api ! ws = CONNECTING
      then Some (onopen (api\<lparr>sockets := (sockets api)[ws := OPEN]\<rparr>))
      else None)"
| "step (SocketError ws) api =
     (if ws < length (sockets api) \<and> sockets api ! ws \<noteq> CLOSED then Some api else None)"
| "step (SocketClose ws) api =
     (if ws < length (sockets api) \<and> sockets api ! ws \<noteq> CLOSED
      then Some (onclose (api\<lparr>sockets := (sockets api)[ws := CLOSED]\<rparr>))
      else None)"
| "step (TimerTick h) api =
     (if h < length (timers api) \<and> snd (timers api ! h)
      then Some (case fst (timers api ! h) of
                   ReconnectTimer \<Rightarrow> reconnectTick api
                 | ProbeTimer \<Rightarrow> probeTick api)
      else None)"

fun run :: "'l occurrence list \<Rightarrow> 'l OntimeAPI \<Rightarrow> 'l OntimeAPI option" where
  "run [] api = Some api"
| "run (e # es) api = (case step e api of None \<Rightarrow> None | Some api' \<Rightarrow> run es api')"

text \<open>The reconnection intervals that are armed, and the sockets that are open.\<close>

definition armedReconnectTimers :: "'l OntimeAPI \<Rightarrow> nat" where
  "armedReconnectTimers api = length (filter (\<lambda>t. t = (ReconnectTimer, True)) (timers api))"

definition openConnections :: "'l OntimeAPI \<Rightarrow> nat" where
  "openConnections api = length (filter (\<lambda>r. r = OPEN) (sockets api))"


section \<open>Sample inputs and proof invariants\<close>

text \<open>
  An event with the given id, skip flag, duration and custom fields; the remaining fields
  do not enter any function above and are fixed.
\<close>

definition rundownEvent ::
  "string \<Rightarrow> bool \<Rightarrow> int option \<Rightarrow> (string \<rightharpoonup> string) option \<Rightarrow> OntimeEvent" where
  "rundownEvent i s d c =
     \<lparr>id_ev = i, title = ''Event'', note_ev = None, cue = ''1'', isPublic = True, skip = s,
      colour = None, timeWarning = None, timeDanger = None, endAction = EndNone,
      timerType = CountDown, duration = d, timeStart = None, timeEnd = None, custom = c\<rparr>"

definition scenarioRundown :: "OntimeEvent list" where
  "scenarioRundown =
     [rundownEvent ''421b5a'' False (Some 300) None,
      rundownEvent ''21313f'' False (Some 600) None,
      rundownEvent ''146dc4'' False (Some 900) None]"

definition scenarioPlayback :: PlaybackState where
  "scenarioPlayback =
     \<lparr>state = Start, selectedEventId = Value ''21313f'', selectedEventIndex = Value 1,
      loadedEventId = Value ''21313f'', loadedEventIndex = Value 1\<rparr>"

definition scenarioTimer :: TimerState where
  "scenarioTimer =
     \<lparr>current = 30000, duration_ms = 600000, expectedFinish = 0, startedAt = None,
      addedTime = None\<rparr>"

definition scenarioSnapshot :: RuntimeData where
  "scenarioSnapshot = \<lparr>timer = Some scenarioTimer, playback = Some scenarioPlayback\<rparr>"

text \<open>A rundown whose selected event is flagged skip, and a snapshot that selects nothing.\<close>

definition skippedRundown :: "OntimeEvent list" where
  "skippedRundown =
     [rundownEvent ''421b5a'' False (Some 300) None,
      rundownEvent ''21313f'' True (Some 600) None,
      rundownEvent ''146dc4'' True None None]"

definition idleSnapshot :: RuntimeData where
  "idleSnapshot =
     \<lparr>timer = Some scenarioTimer,
      playback = Some \<lparr>state = Stop, selectedEventId = Null, selectedEventIndex = Null,
                       loadedEventId = Null, loadedEventIndex = Null\<rparr>\<rparr>"

text \<open>A snapshot with a timer and a playback slice, and a message that carries a timer only.\<close>

definition fullSnapshot :: SnapshotStore where
  "fullSnapshot =
     \<lparr>runtimeData =
        Some (JObj [(''timer'', JObj [(''current'', JNum 1000)]),
                    (''playback'', JObj [(''state'', JStr ''start'')])]),
      runtimeQueryData = None\<rparr>"

definition timerOnly :: json where
  "timerOnly =
     JObj [(''topic'', JStr ''timer''),
           (''payload'', JObj [(''timer'', JObj [(''current'', JNum 2000)])])]"

text \<open>
  Text frames with their decoded values: a decoder defined on these frames alone, as
  \<^verbatim>\<open>JSON.parse\<close> decodes them.
\<close>

definition newTopicFrame :: string where
  \<open>newTopicFrame = ''{"topic":"NEW-EVENT","payload":{"timer":{"current":5}}}''\<close>

definition sampleParse :: "string \<Rightarrow> json option" where
  "sampleParse =
     map_of
       [(''5'', JNum 5),
        (''true'', JBool True),
        (newTopicFrame,
         JObj [(''topic'', JStr ''NEW-EVENT''),
               (''payload'', JObj [(''timer'', JObj [(''current'', JNum 5)])])])]"

text \<open>An event card with one custom field, and an HTTP client that rejects, one that fulfils.\<close>

definition imageEvent :: OntimeEvent where
  "imageEvent =
     rundownEvent ''421b5a'' False (Some 300)
       (Some [''Image_Test'' \<mapsto> ''https://example.com/old.png''])"

definition patchRejects :: "string \<Rightarrow> json \<Rightarrow> RequestError + json" where
  "patchRejects url body = Inl (RequestError ''Network Error'')"

definition patchFulfils :: "string \<Rightarrow> json \<Rightarrow> RequestError + json" where
  "patchFulfils url body = Inr (JObj [(''status'', JStr ''success'')])"

text \<open>
  What the connection claims look at: the field \<^verbatim>\<open>reconnectInterval\<close>, the number of armed
  reconnection intervals, the number of open sockets, and every socket's state.
\<close>

definition observe :: "'l OntimeAPI \<Rightarrow> nat option \<times> nat \<times> nat \<times> ReadyState list" where
  "observe api =
     (reconnectInterval api, armedReconnectTimers api, openConnections api, sockets api)"

text \<open>
  The invariant of the reconnection interval: the armed reconnection intervals are the
  one the field holds, if it holds one.
\<close>

definition timerInv :: "'l OntimeAPI \<Rightarrow> bool" where
  "timerInv api =
     (armedReconnectTimers api = (if reconnectInterval api = None then 0 else 1) \<and>
      (\<forall>h. reconnectInterval api = Some h \<longrightarrow>
         h < length (timers api) \<and> timers api ! h = (ReconnectTimer, True)))"


text \<open>
  The client after \<^verbatim>\<open>connectWebSocket()\<close> and the opening of its socket, and after that
  socket's close event.
\<close>

definition openedAPI :: "string OntimeAPI" where
  "openedAPI =
     \<lparr>websocket = Some 0, wsListeners = [], reconnectInterval = None,
      sockets = [OPEN], timers = [(ProbeTimer, True)],
      sent = [(0, ''get-runtime'', JObj []), (0, ''get-timer'', JObj []),
              (0, ''get-playback'', JObj []), (0, ''poll-runtime'', JObj []),
              (0, ''ontime-poll'', JObj [])]\<rparr>"

definition closedAPI :: "string OntimeAPI" where
  "closedAPI =
     openedAPI\<lparr>websocket := None, reconnectInterval := Some 1, sockets := [CLOSED],
               timers := [(ProbeTimer, True), (ReconnectTimer, True)]\<rparr>"

section \<open>Event status derivation: verified properties\<close>

lemma extend_fields [simp]:
  "status (OntimeEvent.extend e (EventWithStatus.fields s r t)) = s"
  "isRunning (OntimeEvent.extend e (EventWithStatus.fields s r t)) = r"
  "timeRemaining (OntimeEvent.extend e (EventWithStatus.fields s r t)) = t"
  "id_ev (OntimeEvent.extend e (EventWithStatus.fields s r t)) = id_ev e"
  by (simp_all add: OntimeEvent.extend_def EventWithStatus.fields_def OntimeEvent.defs
      EventWithStatus.defs)

lemma findIndex_lower: "- 1 \<le> findIndex p xs"
  by (induction xs) (auto simp: Let_def)

lemma findIndex_absent: "findIndex p xs = - 1 \<longleftrightarrow> (\<forall>x\<in>set xs. \<not> p x)"
proof (induction xs)
  case Nil
  show ?case by simp
next
  case (Cons x xs)
  have "- 1 \<le> findIndex p xs" by (rule findIndex_lower)
  with Cons show ?case by (auto simp: Let_def)
qed

lemma useEventsWithStatus_nth:
  "i < length rundown \<Longrightarrow>
   useEventsWithStatus rundown rd ! i = deriveEvent rundown rd (rundown ! i) i"
  by (simp add: useEventsWithStatus_def nth_enumerate_eq)

lemma length_useEventsWithStatus [simp]:
  "length (useEventsWithStatus rundown rd) = length rundown"
  by (simp add: useEventsWithStatus_def)

lemma deriveEvent_unselected:
  assumes "\<forall>e\<in>set rundown. currentEventId rd \<noteq> Some (Value (id_ev e))"
    and "event \<in> set rundown"
  shows "status (deriveEvent rundown rd event index) =
         (if skip event then skipped else upcoming)"
proof -
  have "findIndex (\<lambda>e. Some (Value (id_ev e)) = currentEventId rd) rundown = - 1"
    using assms(1) by (auto simp: findIndex_absent)
  with assms show ?thesis by (auto simp: deriveEvent_def Let_def)
qed

lemmas scenario_defs =
  scenarioRundown_def scenarioSnapshot_def scenarioPlayback_def scenarioTimer_def
  skippedRundown_def idleSnapshot_def rundownEvent_def

text \<open>
  Claim C2. With the rundown order 421b5a, 21313f, 146dc4, no event flagged skip, a
  duration of 600 for 21313f, and a snapshot that selects 21313f with playback state
  start and timer.current = 30000, the derivation gives: 421b5a completed, 21313f active
  with isRunning true and timeRemaining 570000, 146dc4 upcoming.
\<close>

theorem C2_scenario_statuses:
  assumes ids: "map id_ev rundown = [''421b5a'', ''21313f'', ''146dc4'']"
    and noskip: "\<forall>e\<in>set rundown. \<not> skip e"
    and dur: "duration (rundown ! 1) = Some 600"
    and pb: "playback rd = Some p" "selectedEventId p = Value ''21313f''" "state p = Start"
    and tm: "timer rd = Some t" "current t = 30000"
  shows "map (\<lambda>e. (id_ev e, status e, isRunning e, timeRemaining e))
           (useEventsWithStatus rundown (Some rd)) =
         [(''421b5a'', completed, False, None),
          (''21313f'', active, True, Some 570000),
          (''146dc4'', upcoming, False, None)]"
proof -
  from ids obtain e1 e2 e3 where r: "rundown = [e1, e2, e3]"
    and i: "id_ev e1 = ''421b5a''" "id_ev e2 = ''21313f''" "id_ev e3 = ''146dc4''"
    by (auto simp: map_eq_Cons_conv)
  from noskip r have s: "\<not> skip e1" "\<not> skip e2" "\<not> skip e3" by auto
  from dur r have d: "duration e2 = Some 600" by simp
  show ?thesis
    using i s d pb tm
    by (simp add: r useEventsWithStatus_def enumerate_eq_zip deriveEvent_def
        currentEventId_def playbackIsStart_def currentTime_def Let_def upt_rec)
qed

theorem C2_scenario_statuses_witness:
  "map id_ev scenarioRundown = [''421b5a'', ''21313f'', ''146dc4''] \<and>
   map skip scenarioRundown = [False, False, False] \<and>
   duration (scenarioRundown ! 1) = Some 600 \<and>
   playback scenarioSnapshot = Some scenarioPlayback \<and>
   selectedEventId scenarioPlayback = Value ''21313f'' \<and>
   state scenarioPlayback = Start \<and>
   timer scenarioSnapshot = Some scenarioTimer \<and>
   current scenarioTimer = 30000 \<and>
   map (\<lambda>e. (id_ev e, status e, isRunning e, timeRemaining e))
     (useEventsWithStatus scenarioRundown (Some scenarioSnapshot)) =
   [(''421b5a'', completed, False, None),
    (''21313f'', active, True, Some 570000),
    (''146dc4'', upcoming, False, None)]"
proof -
  have h: "map id_ev scenarioRundown = [''421b5a'', ''21313f'', ''146dc4'']"
    "\<forall>e\<in>set scenarioRundown. \<not> skip e"
    "duration (scenarioRundown ! 1) = Some 600"
    "playback scenarioSnapshot = Some scenarioPlayback"
    "selectedEventId scenarioPlayback = Value ''21313f''"
    "state scenarioPlayback = Start"
    "timer scenarioSnapshot = Some scenarioTimer"
    "current scenarioTimer = 30000"
    by (simp_all add: scenario_defs)
  have "map skip scenarioRundown = [False, False, False]"
    by (simp add: scenario_defs)
  with h C2_scenario_statuses [OF h] show ?thesis by blast
qed

text \<open>
  Claim C6. Whatever the rundown and the snapshot, an event with skip = true is derived as
  skipped: also when it is the selected event, and wherever it stands in the rundown.
\<close>

theorem C6_skip_dominance:
  assumes "i < length rundown" and "skip (rundown ! i)"
  shows "status (useEventsWithStatus rundown rd ! i) = skipped \<and>
         id_ev (useEventsWithStatus rundown rd ! i) = id_ev (rundown ! i)"
  using assms by (simp add: useEventsWithStatus_nth deriveEvent_def)

theorem C6_skip_dominance_witness:
  "1 < length skippedRundown \<and> skip (skippedRundown ! 1) \<and>
   currentEventId (Some scenarioSnapshot) = Some (Value (id_ev (skippedRundown ! 1))) \<and>
   status (useEventsWithStatus skippedRundown (Some scenarioSnapshot) ! 1) = skipped \<and>
   id_ev (useEventsWithStatus skippedRundown (Some scenarioSnapshot) ! 1) = ''21313f''"
proof -
  have h: "1 < length skippedRundown" "skip (skippedRundown ! 1)"
    by (simp_all add: scenario_defs)
  have "currentEventId (Some scenarioSnapshot) = Some (Value (id_ev (skippedRundown ! 1)))"
    "id_ev (skippedRundown ! 1) = ''21313f''"
    by (simp_all add: scenario_defs currentEventId_def)
  with h C6_skip_dominance [OF h, of "Some scenarioSnapshot"] show ?thesis by simp
qed

text \<open>
  Claim C10. When the snapshot's selected event id is undefined, null, or the id of no
  event of the rundown, every event with skip = true is derived as skipped and every
  other event as upcoming; none is active or completed.
\<close>

theorem C10_nothing_selected:
  assumes "currentEventId rd = None \<or> currentEventId rd = Some Null \<or>
           (\<forall>e\<in>set rundown. currentEventId rd \<noteq> Some (Value (id_ev e)))"
  shows "map status (useEventsWithStatus rundown rd) =
         map (\<lambda>e. if skip e then skipped else upcoming) rundown"
proof -
  from assms have h: "\<forall>e\<in>set rundown. currentEventId rd \<noteq> Some (Value (id_ev e))"
    by auto
  show ?thesis
  proof (rule nth_equalityI)
    show "length (map status (useEventsWithStatus rundown rd)) =
          length (map (\<lambda>e. if skip e then skipped else upcoming) rundown)"
      by simp
  next
    fix i
    assume "i < length (map status (useEventsWithStatus rundown rd))"
    then have i: "i < length rundown" by simp
    then have "rundown ! i \<in> set rundown" by simp
    with h i show "map status (useEventsWithStatus rundown rd) ! i =
          map (\<lambda>e. if skip e then skipped else upcoming) rundown ! i"
      by (simp add: useEventsWithStatus_nth deriveEvent_unselected)
  qed
qed

theorem C10_nothing_selected_witness:
  "currentEventId (Some idleSnapshot) = Some Null \<and>
   map status (useEventsWithStatus skippedRundown (Some idleSnapshot)) =
   [upcoming, skipped, skipped]"
proof -
  have h: "currentEventId (Some idleSnapshot) = Some Null"
    by (simp add: scenario_defs currentEventId_def)
  then have "currentEventId (Some idleSnapshot) = None \<or>
      currentEventId (Some idleSnapshot) = Some Null \<or>
      (\<forall>e\<in>set skippedRundown. currentEventId (Some idleSnapshot) \<noteq> Some (Value (id_ev e)))"
    by simp
  from C10_nothing_selected [OF this] h show ?thesis
    by (simp add: scenario_defs)
qed


section \<open>Message normalisation and the snapshot: verified properties\<close>

lemmas dispatch_defs =
  handleWebSocketMessage_def forEachCaught_def coerceTopic_def normalizeTopic_def
  toLowerCase_def lowerChar_def validTopics_def noThrow_def topic_def payload_def

lemma topic_truthy: "topic message = Some t \<Longrightarrow> truthy message"
  by (cases message) (simp_all add: topic_def)

text \<open>
  Claim C1, as stated, fails. The snapshot holds a timer and a playback slice; a message
  with the recognized topic timer and a payload that carries a timer slice only is
  delivered. Afterwards the playback slice is undefined, not what it was.
\<close>

theorem C1_timer_only_clobbers_playback:
  "slice fullSnapshot ''playback'' = Some (JObj [(''state'', JStr ''start'')]) \<and>
   slice (storeMerge timerOnly fullSnapshot) ''playback'' = None \<and>
   slice (storeMerge timerOnly fullSnapshot) ''timer'' = Some (JObj [(''current'', JNum 2000)])"
  by (simp add: slice_def storeMerge_def timerOnly_def fullSnapshot_def onRuntimeData_def
      dispatch_defs)

text \<open>
  Claim C1, amended. For every message whose topic is in the recognized set and whose
  payload is truthy, delivery replaces the whole snapshot by the payload: afterwards
  every top-level slice is the payload's slice of that name, so a slice the payload
  lacks is undefined afterwards, whatever the snapshot held before.
\<close>

theorem C1_merge_replaces_snapshot:
  assumes "topic message = Some (JStr t)" and "normalizeTopic t \<in> set validTopics"
    and "payload message = Some p" and "truthy p"
  shows "runtimeData (storeMerge message st) = Some p \<and>
         (\<forall>k. slice (storeMerge message st) k = getProp p k)"
proof -
  from assms(1) have "truthy message" by (rule topic_truthy)
  with assms show ?thesis
    by (simp add: storeMerge_def handleWebSocketMessage_def forEachCaught_def coerceTopic_def
        onRuntimeData_def slice_def)
qed

theorem C1_merge_replaces_snapshot_witness:
  "topic timerOnly = Some (JStr ''timer'') \<and>
   normalizeTopic ''timer'' \<in> set validTopics \<and>
   payload timerOnly = Some (JObj [(''timer'', JObj [(''current'', JNum 2000)])]) \<and>
   truthy (JObj [(''timer'', JObj [(''current'', JNum 2000)])]) \<and>
   runtimeData (storeMerge timerOnly fullSnapshot) =
     Some (JObj [(''timer'', JObj [(''current'', JNum 2000)])]) \<and>
   slice (storeMerge timerOnly fullSnapshot) ''eventNow'' = None"
proof -
  have h: "topic timerOnly = Some (JStr ''timer'')"
    "normalizeTopic ''timer'' \<in> set validTopics"
    "payload timerOnly = Some (JObj [(''timer'', JObj [(''current'', JNum 2000)])])"
    "truthy (JObj [(''timer'', JObj [(''current'', JNum 2000)])])"
    by (simp_all add: timerOnly_def dispatch_defs)
  from C1_merge_replaces_snapshot [OF h, of fullSnapshot]
  have "runtimeData (storeMerge timerOnly fullSnapshot) =
          Some (JObj [(''timer'', JObj [(''current'', JNum 2000)])])"
    and "slice (storeMerge timerOnly fullSnapshot) ''eventNow'' =
          getProp (JObj [(''timer'', JObj [(''current'', JNum 2000)])]) ''eventNow''"
    by blast+
  with h show ?thesis by simp
qed

text \<open>
  Claim C5. A frame that decodes to an object and whose normalized topic is not in the
  recognized set is still delivered when its payload is an object: every subscriber is
  called once with the payload, in subscription order, also when a callback throws.
  The same holds of a topic that gets no normalized form because its conversion to a
  string throws.
\<close>

theorem C5_unknown_topic_delivered:
  assumes "envelope JSON_parse data = Some message"
    and "topic message = Some t" and "t \<noteq> JNull"
    and "\<forall>s. coerceTopic t = Some s \<longrightarrow> normalizeTopic s \<notin> set validTopics"
    and "payload message = Some p" and "truthy p" and "typeofObject p"
  shows "onmessage JSON_parse throws listeners data = map (\<lambda>l. (l, p)) listeners"
proof -
  from assms(2) have m: "truthy message" by (rule topic_truthy)
  then have o: "typeofObject message" using assms(2)
    by (cases message) (simp_all add: topic_def)
  show ?thesis
  proof (cases "coerceTopic t")
    case None
    with assms m o show ?thesis
      by (simp add: onmessage_def handleWebSocketMessage_def lastResort_def forEachCaught_def)
  next
    case (Some s)
    with assms m show ?thesis
      by (simp add: onmessage_def handleWebSocketMessage_def forEachCaught_def)
  qed
qed

lemma envelope_newTopicFrame:
  "envelope sampleParse newTopicFrame =
     Some (JObj [(''topic'', JStr ''NEW-EVENT''),
                 (''payload'', JObj [(''timer'', JObj [(''current'', JNum 5)])])])"
  by (simp add: envelope_def sampleParse_def newTopicFrame_def)

theorem C5_unknown_topic_delivered_witness:
  "envelope sampleParse newTopicFrame =
     Some (JObj [(''topic'', JStr ''NEW-EVENT''),
                 (''payload'', JObj [(''timer'', JObj [(''current'', JNum 5)])])]) \<and>
   JStr ''NEW-EVENT'' \<noteq> JNull \<and>
   coerceTopic (JStr ''NEW-EVENT'') = Some ''NEW-EVENT'' \<and>
   normalizeTopic ''NEW-EVENT'' = ''new-event'' \<and>
   ''new-event'' \<notin> set validTopics \<and>
   truthy (JObj [(''timer'', JObj [(''current'', JNum 5)])]) \<and>
   typeofObject (JObj [(''timer'', JObj [(''current'', JNum 5)])]) \<and>
   onmessage sampleParse noThrow [''dashboard'', ''presentation''] newTopicFrame =
     [(''dashboard'', JObj [(''timer'', JObj [(''current'', JNum 5)])]),
      (''presentation'', JObj [(''timer'', JObj [(''current'', JNum 5)])])]"
proof -
  let ?m = "JObj [(''topic'', JStr ''NEW-EVENT''),
                  (''payload'', JObj [(''timer'', JObj [(''current'', JNum 5)])])]"
  let ?p = "JObj [(''timer'', JObj [(''current'', JNum 5)])]"
  have c: "coerceTopic (JStr ''NEW-EVENT'') = Some ''NEW-EVENT''"
    by (simp add: coerceTopic_def)
  have n: "normalizeTopic ''NEW-EVENT'' = ''new-event''"
    by (simp add: dispatch_defs)
  have v: "''new-event'' \<notin> set validTopics"
    by (simp add: validTopics_def)
  from c n v
  have nv: "\<forall>s. coerceTopic (JStr ''NEW-EVENT'') = Some s \<longrightarrow> normalizeTopic s \<notin> set validTopics"
    by simp
  have t: "topic ?m = Some (JStr ''NEW-EVENT'')" and p: "payload ?m = Some ?p"
    by (simp_all add: topic_def payload_def)
  have "JStr ''NEW-EVENT'' \<noteq> JNull" and "truthy ?p" and "typeofObject ?p"
    by simp_all
  from C5_unknown_topic_delivered
         [where throws = noThrow and listeners = "[''dashboard'', ''presentation'']",
          OF envelope_newTopicFrame t this(1) nv p this(2) this(3)]
  have "onmessage sampleParse noThrow [''dashboard'', ''presentation''] newTopicFrame =
     [(''dashboard'', ?p), (''presentation'', ?p)]"
    by simp
  with envelope_newTopicFrame c n v show ?thesis by simp
qed

text \<open>
  Claim C8, as stated, fails. The frame 5 decodes to a number; no message is built from
  it, in particular not the message with topic unknown-data and payload 5, and the
  subscriber is not called.
\<close>

theorem C8_number_frame_discarded:
  "sampleParse ''5'' = Some (JNum 5) \<and>
   envelope sampleParse ''5'' = None \<and>
   envelope sampleParse ''5'' \<noteq>
     Some (JObj [(''topic'', JStr ''unknown-data''), (''payload'', JNum 5)]) \<and>
   onmessage sampleParse noThrow [''dashboard''] ''5'' = []"
  by (simp add: envelope_def onmessage_def sampleParse_def newTopicFrame_def)

text \<open>
  Claim C8, amended. A frame that parses as valid JSON and whose decoded value is null, a
  boolean, a number or a string (neither an object nor an array) is discarded: the
  handler returns normally, builds no message from it and calls no subscriber.
\<close>

theorem C8_primitive_frames_discarded:
  assumes "JSON_parse data = Some v"
    and "\<forall>kvs. v \<noteq> JObj kvs" and "\<forall>xs. v \<noteq> JArr xs"
  shows "envelope JSON_parse data = None \<and>
         onmessage JSON_parse throws listeners data = []"
  using assms by (cases v) (simp_all add: envelope_def onmessage_def)

theorem C8_primitive_frames_discarded_witness:
  "sampleParse ''true'' = Some (JBool True) \<and>
   envelope sampleParse ''true'' = None \<and>
   onmessage sampleParse noThrow [''dashboard''] ''true'' = []"
proof -
  have h: "sampleParse ''true'' = Some (JBool True)"
    by (simp add: sampleParse_def newTopicFrame_def)
  have "\<forall>kvs. JBool True \<noteq> JObj kvs" and "\<forall>xs. JBool True \<noteq> JArr xs"
    by simp_all
  from C8_primitive_frames_discarded
         [where JSON_parse = sampleParse and data = "''true''" and v = "JBool True"
            and throws = noThrow and listeners = "[''dashboard'']", OF h this] h
  show ?thesis by simp
qed






text \<open>
  A topic whose conversion to a string throws: the object has a member toString. The
  catch block broadcasts the payload if it is truthy, else the whole message.
\<close>

lemma toString_member_topic:
  "coerceTopic (JObj [(''toString'', JNum 1)]) = None \<and>
   handleWebSocketMessage noThrow [''dashboard'']
     (JObj [(''topic'', JObj [(''toString'', JNum 1)]), (''payload'', JNum 0)]) =
     [(''dashboard'',
       JObj [(''topic'', JObj [(''toString'', JNum 1)]), (''payload'', JNum 0)])]"
  by (simp add: dispatch_defs lastResort_def)





section \<open>Custom-field edits: verified properties\<close>

text \<open>
  Claim C7. While a field is edited, a change of its input is displayed at once. When the
  edit is saved and the PATCH is rejected, the client reports the error to its caller
  and the displayed value of the field reverts to the value held in event.custom (the
  empty string when it holds none). When the PATCH is fulfilled, the edited value stays
  in place; a non-empty one is what the card goes on to display.
\<close>

theorem C7_custom_field_edit:
  assumes "editingField st = Some fieldId"
  shows "displayedValue event (onChange fieldId v st) fieldId = v \<and>
         (patch (''/events/'' @ id_ev event @ ''/custom/'' @ fieldId)
              (JObj [(''value'', JStr v)]) = Inl err \<longrightarrow>
            updateCustomField patch (id_ev event) fieldId v = Inl err \<and>
            displayedValue event (saveField patch event fieldId (onChange fieldId v st)) fieldId =
              orEmpty (customValue event fieldId) \<and>
            consoleErrors (saveField patch event fieldId (onChange fieldId v st)) =
              consoleErrors st @ [err]) \<and>
         (patch (''/events/'' @ id_ev event @ ''/custom/'' @ fieldId)
              (JObj [(''value'', JStr v)]) = Inr d \<longrightarrow>
            updateCustomField patch (id_ev event) fieldId v = Inr d \<and>
            fieldValues (saveField patch event fieldId (onChange fieldId v st)) fieldId = Some v \<and>
            (v \<noteq> [] \<longrightarrow>
               displayedValue event (saveField patch event fieldId (onChange fieldId v st))
                 fieldId = v))"
  using assms
  by (auto simp: displayedValue_def onChange_def orEmpty_def updateCustomField_def
      handleFieldSave_def saveField_def)

lemmas card_defs =
  imageEvent_def rundownEvent_def startEdit_def initialCardState_def displayedValue_def
  onChange_def orEmpty_def customValue_def saveField_def handleFieldSave_def
  updateCustomField_def patchRejects_def patchFulfils_def

theorem C7_custom_field_edit_witness:
  "editingField (startEdit imageEvent ''Image_Test'' (initialCardState imageEvent)) =
     Some ''Image_Test'' \<and>
   displayedValue imageEvent
     (onChange ''Image_Test'' ''https://example.com/a.png''
        (startEdit imageEvent ''Image_Test'' (initialCardState imageEvent)))
     ''Image_Test'' = ''https://example.com/a.png'' \<and>
   updateCustomField patchRejects ''421b5a'' ''Image_Test'' ''https://example.com/a.png'' =
     Inl (RequestError ''Network Error'') \<and>
   displayedValue imageEvent
     (saveField patchRejects imageEvent ''Image_Test''
        (onChange ''Image_Test'' ''https://example.com/a.png''
           (startEdit imageEvent ''Image_Test'' (initialCardState imageEvent))))
     ''Image_Test'' = ''https://example.com/old.png'' \<and>
   updateCustomField patchFulfils ''421b5a'' ''Image_Test'' ''https://example.com/a.png'' =
     Inr (JObj [(''status'', JStr ''success'')]) \<and>
   displayedValue imageEvent
     (saveField patchFulfils imageEvent ''Image_Test''
        (onChange ''Image_Test'' ''https://example.com/a.png''
           (startEdit imageEvent ''Image_Test'' (initialCardState imageEvent))))
     ''Image_Test'' = ''https://example.com/a.png''"
proof -
  let ?st = "startEdit imageEvent ''Image_Test'' (initialCardState imageEvent)"
  let ?v = "''https://example.com/a.png''"
  have e: "editingField ?st = Some ''Image_Test''"
    by (simp add: startEdit_def)
  have i: "id_ev imageEvent = ''421b5a''"
    and c: "orEmpty (customValue imageEvent ''Image_Test'') = ''https://example.com/old.png''"
    by (simp_all add: imageEvent_def rundownEvent_def orEmpty_def customValue_def)
  have r: "patchRejects (''/events/'' @ id_ev imageEvent @ ''/custom/'' @ ''Image_Test'')
             (JObj [(''value'', JStr ?v)]) = Inl (RequestError ''Network Error'')"
    by (simp add: patchRejects_def)
  have f: "patchFulfils (''/events/'' @ id_ev imageEvent @ ''/custom/'' @ ''Image_Test'')
             (JObj [(''value'', JStr ?v)]) = Inr (JObj [(''status'', JStr ''success'')])"
    by (simp add: patchFulfils_def)
  have ne: "?v \<noteq> []" by simp
  from C7_custom_field_edit [OF e, of imageEvent ?v patchRejects] r
  have 1: "displayedValue imageEvent (onChange ''Image_Test'' ?v ?st) ''Image_Test'' = ?v"
    and 2: "updateCustomField patchRejects (id_ev imageEvent) ''Image_Test'' ?v =
              Inl (RequestError ''Network Error'')"
    and 3: "displayedValue imageEvent
              (saveField patchRejects imageEvent ''Image_Test'' (onChange ''Image_Test'' ?v ?st))
              ''Image_Test'' = orEmpty (customValue imageEvent ''Image_Test'')"
    by blast+
  from C7_custom_field_edit [OF e, of imageEvent ?v patchFulfils] f ne
  have 4: "updateCustomField patchFulfils (id_ev imageEvent) ''Image_Test'' ?v =
              Inr (JObj [(''status'', JStr ''success'')])"
    and 5: "displayedValue imageEvent
              (saveField patchFulfils imageEvent ''Image_Test'' (onChange ''Image_Test'' ?v ?st))
              ''Image_Test'' = ?v"
    by blast+
  from e 1 2 3 4 5 i c show ?thesis by simp
qed


section \<open>Connection lifecycle: verified properties\<close>

lemma send_fields [simp]:
  "timers (sendWebSocketMessage t p api) = timers api"
  "reconnectInterval (sendWebSocketMessage t p api) = reconnectInterval api"
  by (simp_all add: sendWebSocketMessage_def split: option.splits)

lemma timerInv_send [simp]: "timerInv (sendWebSocketMessage t p api) = timerInv api"
  by (simp add: timerInv_def armedReconnectTimers_def)

lemma timerInv_sockets [simp]: "timerInv (api\<lparr>sockets := s\<rparr>) = timerInv api"
  by (simp add: timerInv_def armedReconnectTimers_def)

lemma timerInv_websocket [simp]: "timerInv (api\<lparr>websocket := w\<rparr>) = timerInv api"
  by (simp add: timerInv_def armedReconnectTimers_def)

lemma timerInv_wsListeners [simp]: "timerInv (api\<lparr>wsListeners := ls\<rparr>) = timerInv api"
  by (simp add: timerInv_def armedReconnectTimers_def)

lemma timerInv_closeSocket [simp]: "timerInv (closeSocket ws api) = timerInv api"
  by (simp add: closeSocket_def)

lemma timerInv_connectWebSocket: "timerInv api \<Longrightarrow> timerInv (connectWebSocket api)"
  by (simp add: connectWebSocket_def)

lemma timerInv_probe: "timerInv api \<Longrightarrow> timerInv (setInterval ProbeTimer api)"
  by (auto simp: timerInv_def setInterval_def armedReconnectTimers_def nth_append)

lemma timerInv_onopen: "timerInv api \<Longrightarrow> timerInv (onopen api)"
  by (simp add: onopen_def timerInv_probe)

lemma timerInv_scheduleReconnect: "timerInv api \<Longrightarrow> timerInv (scheduleReconnect api)"
  by (auto simp: timerInv_def scheduleReconnect_def setInterval_def armedReconnectTimers_def
      nth_append)

lemma armed_scheduleReconnect:
  "timerInv api \<Longrightarrow> armedReconnectTimers (scheduleReconnect api) = 1"
  by (auto simp: timerInv_def scheduleReconnect_def setInterval_def armedReconnectTimers_def)

text \<open>Overwriting one occurrence of \<open>x\<close> by something else leaves one occurrence fewer.\<close>

lemma filter_update_count:
  "h < length xs \<Longrightarrow> xs ! h = x \<Longrightarrow> y \<noteq> x \<Longrightarrow>
   length (filter (\<lambda>t. t = x) (xs[h := y])) = length (filter (\<lambda>t. t = x) xs) - 1"
proof (induction xs arbitrary: h)
  case Nil
  then show ?case by simp
next
  case (Cons a xs)
  show ?case
  proof (cases h)
    case 0
    with Cons.prems show ?thesis by simp
  next
    case (Suc k)
    with Cons.prems have k: "k < length xs" "xs ! k = x" by simp_all
    then have "x \<in> set xs" by (metis nth_mem)
    then have "0 < length (filter (\<lambda>t. t = x) xs)" by (simp add: filter_empty_conv)
    with Cons.IH [OF k Cons.prems(3)] Suc show ?thesis by simp
  qed
qed

lemma armed_clearInterval:
  assumes "timerInv api" and "reconnectInterval api = Some h"
  shows "armedReconnectTimers (clearInterval h api) = 0"
proof -
  from assms have h: "h < length (timers api)" "timers api ! h = (ReconnectTimer, True)"
    and one: "armedReconnectTimers api = 1"
    by (simp_all add: timerInv_def)
  have "length (filter (\<lambda>t. t = (ReconnectTimer, True))
                  ((timers api)[h := (ReconnectTimer, False)])) =
        length (filter (\<lambda>t. t = (ReconnectTimer, True)) (timers api)) - 1"
    using h by (intro filter_update_count) simp_all
  with h one show ?thesis
    by (simp add: clearInterval_def armedReconnectTimers_def)
qed

lemma timerInv_cleared:
  assumes "timerInv api"
  shows "timerInv (case reconnectInterval api of
                    None \<Rightarrow> api
                  | Some h \<Rightarrow> (clearInterval h api)\<lparr>reconnectInterval := None\<rparr>)"
proof (cases "reconnectInterval api")
  case None
  with assms show ?thesis by simp
next
  case (Some h)
  with assms have "armedReconnectTimers (clearInterval h api) = 0"
    by (simp add: armed_clearInterval)
  with Some show ?thesis by (simp add: timerInv_def armedReconnectTimers_def)
qed

lemma timerInv_disconnectWebSocket: "timerInv api \<Longrightarrow> timerInv (disconnectWebSocket api)"
  using timerInv_cleared [of api]
  by (simp add: disconnectWebSocket_def Let_def split: option.splits)

lemma timerInv_probeTick: "timerInv api \<Longrightarrow> timerInv (probeTick api)"
  by (simp add: probeTick_def split: option.splits)

lemma timerInv_step: "timerInv api \<Longrightarrow> step e api = Some api' \<Longrightarrow> timerInv api'"
  by (cases e)
     (auto simp: timerInv_connectWebSocket timerInv_disconnectWebSocket timerInv_onopen
        timerInv_scheduleReconnect timerInv_probeTick onRuntimeDataUpdate_def unsubscribe_def
        onclose_def reconnectTick_def
        split: if_splits TimerKind.splits)

lemma timerInv_run: "timerInv api \<Longrightarrow> run tr api = Some api' \<Longrightarrow> timerInv api'"
  by (induction tr arbitrary: api) (auto split: option.splits dest: timerInv_step)

lemma timerInv_initialAPI: "timerInv initialAPI"
  by (simp add: timerInv_def initialAPI_def armedReconnectTimers_def)

text \<open>
  Claim C3: the client at the input where it departs from the claim. A connection is
  opened and then torn down with \<^verbatim>\<open>disconnectWebSocket()\<close>: the reconnection interval is
  disarmed and the socket is closing. The close event of that socket then runs its
  \<^verbatim>\<open>onclose\<close> handler, which arms a reconnection interval; the interval fires and opens a
  new connection, with no call of \<^verbatim>\<open>connectWebSocket()\<close> after the teardown.
\<close>

theorem C3_reconnects_after_disconnect:
  "map_option observe
     (run [CallConnect, SocketOpen 0, CallDisconnect] (initialAPI :: string OntimeAPI)) =
     Some (None, 0, 0, [CLOSING]) \<and>
   map_option observe
     (run [CallConnect, SocketOpen 0, CallDisconnect, SocketClose 0]
        (initialAPI :: string OntimeAPI)) =
     Some (Some 1, 1, 0, [CLOSED]) \<and>
   map_option observe
     (run [CallConnect, SocketOpen 0, CallDisconnect, SocketClose 0, TimerTick 1, SocketOpen 1]
        (initialAPI :: string OntimeAPI)) =
     Some (Some 1, 1, 1, [CLOSED, OPEN])"
  by code_simp

text \<open>
  Claim C4, as stated, fails. A connection opens and is closed by the peer; the
  reconnection interval fires and the new socket opens: the interval is still armed.
  It fires again and a third socket opens while the second is open: two connections
  are open at once.
\<close>

theorem C4_timer_stays_armed_two_connections:
  "map_option observe
     (run [CallConnect, SocketOpen 0, SocketClose 0, TimerTick 1, SocketOpen 1]
        (initialAPI :: string OntimeAPI)) =
     Some (Some 1, 1, 1, [CLOSED, OPEN]) \<and>
   map_option observe
     (run [CallConnect, SocketOpen 0, SocketClose 0, TimerTick 1, SocketOpen 1,
           TimerTick 1, SocketOpen 2]
        (initialAPI :: string OntimeAPI)) =
     Some (Some 1, 1, 2, [CLOSED, OPEN, OPEN])"
  by code_simp

text \<open>
  Claim C4, amended. In every state the client can reach, at most one reconnection
  interval is armed, and one is armed exactly when the field \<^verbatim>\<open>reconnectInterval\<close> holds
  one; after the close event of any socket exactly one reconnection interval is armed.
\<close>

theorem C4_one_reconnect_timer:
  assumes "run tr initialAPI = Some api"
  shows "armedReconnectTimers api \<le> 1 \<and>
         (armedReconnectTimers api = 1 \<longleftrightarrow> reconnectInterval api \<noteq> None) \<and>
         (\<forall>ws api'. step (SocketClose ws) api = Some api' \<longrightarrow>
            armedReconnectTimers api' = 1)"
proof -
  from assms have inv: "timerInv api"
    by (rule timerInv_run [OF timerInv_initialAPI])
  then have a: "armedReconnectTimers api \<le> 1 \<and>
      (armedReconnectTimers api = 1 \<longleftrightarrow> reconnectInterval api \<noteq> None)"
    by (auto simp: timerInv_def)
  have "armedReconnectTimers api' = 1" if "step (SocketClose ws) api = Some api'" for ws api'
  proof -
    from that
    have "api' = scheduleReconnect (api\<lparr>sockets := (sockets api)[ws := CLOSED], websocket := None\<rparr>)"
      by (auto simp: onclose_def split: if_splits)
    with inv show ?thesis by (simp add: armed_scheduleReconnect)
  qed
  with a show ?thesis by blast
qed

theorem C4_one_reconnect_timer_witness:
  "run [CallConnect, SocketOpen 0] initialAPI = Some openedAPI \<and>
   step (SocketClose 0) openedAPI = Some closedAPI \<and>
   armedReconnectTimers openedAPI \<le> 1 \<and>
   reconnectInterval openedAPI = None \<and>
   armedReconnectTimers closedAPI = 1"
proof -
  have r: "run [CallConnect, SocketOpen 0] initialAPI = Some openedAPI"
    by code_simp
  have s: "step (SocketClose 0) openedAPI = Some closedAPI"
    by code_simp
  have n: "reconnectInterval openedAPI = None"
    by (simp add: openedAPI_def)
  from C4_one_reconnect_timer [OF r] s
  have "armedReconnectTimers openedAPI \<le> 1" and "armedReconnectTimers closedAPI = 1"
    by blast+
  with r s n show ?thesis by simp
qed

end
